theory Spec2Isabelle
  imports Main
begin

section \<open>Python values\<close>

text \<open>
  The handlers of \<^verbatim>\<open>server/routes.py\<close> pass around values they never look into:
  whatever the \<^verbatim>\<open>database\<close> module returns, and the dictionaries they build
  themselves. \<open>pyval\<close> holds the values that can end up in a JSON body. A \<^verbatim>\<open>str\<close>
  is kept as the bytes of its UTF-8 encoding; a \<^verbatim>\<open>dict\<close> is an association list
  in insertion order, with \<^verbatim>\<open>str\<close> keys.
\<close>

datatype pyval =
    PyNone
  | PyBool bool
  | PyInt int
  | PyStr string
  | PyList "pyval list"
  | PyDict "(string \<times> pyval) list"

text \<open>
  Python's truth value testing, as \<^verbatim>\<open>if result:\<close> applies it: \<^verbatim>\<open>None\<close>,
  \<^verbatim>\<open>False\<close>, zero and every empty container are false, anything else is true.
\<close>

definition truthy :: "pyval \<Rightarrow> bool" where
  "truthy v =
     (case v of
        PyNone \<Rightarrow> False
      | PyBool b \<Rightarrow> b
      | PyInt i \<Rightarrow> i \<noteq> 0
      | PyStr s \<Rightarrow> s \<noteq> []
      | PyList xs \<Rightarrow> xs \<noteq> []
      | PyDict kvs \<Rightarrow> kvs \<noteq> [])"

text \<open>The keys of a dictionary, in order; \<open>None\<close> for a value that is no dictionary.\<close>

definition dict_keys :: "pyval \<Rightarrow> string list option" where
  "dict_keys v = (case v of PyDict kvs \<Rightarrow> Some (map fst kvs) | _ \<Rightarrow> None)"

section \<open>Coroutines, exceptions and the collaborators\<close>

text \<open>An exception raised while a coroutine runs, known by its text.\<close>

datatype error = Raised string

text \<open>
  Awaiting a coroutine runs it against the state of the world outside the handler (the
  database behind the collaborators), type \<open>'s\<close>: it either raises or returns a value,
  and leaves a new state.
\<close>

type_synonym ('s, 'a) coro = "'s \<Rightarrow> (error + 'a) \<times> 's"

text \<open>
  The three functions imported from \<^verbatim>\<open>src.server.database\<close>. That module is not
  part of the sources, so its functions are parameters of every handler.
\<close>

record 's database =
  retrieve_balance :: "string \<Rightarrow> ('s, pyval) coro"
  retrieve_top_balances :: "('s, pyval) coro"
  retrieve_holder_weekly_change :: "string \<Rightarrow> ('s, pyval) coro"

text \<open>
  \<^verbatim>\<open>await asyncio.gather(*futures)\<close> with the default \<^verbatim>\<open>return_exceptions=False\<close>:
  the results in the order of the awaitables, or the first exception raised. The
  awaitables are run here in the order of the list; the handlers below only ever pass
  one.
\<close>

fun gather :: "('s, 'a) coro list \<Rightarrow> ('s, 'a list) coro" where
  "gather [] s = (Inr [], s)"
| "gather (c # cs) s =
     (case c s of
        (Inl e, s') \<Rightarrow> (Inl e, s')
      | (Inr v, s') \<Rightarrow>
          (case gather cs s' of
             (Inl e, s'') \<Rightarrow> (Inl e, s'')
           | (Inr vs, s'') \<Rightarrow> (Inr (v # vs), s'')))"

section \<open>The routes\<close>

text \<open>\<^verbatim>\<open>GET /\<close>: \<^verbatim>\<open>get_notes()\<close>. The text starts with U+1FA99, four bytes in UTF-8.\<close>

definition get_notes :: "('s, pyval) coro" where
  "get_notes s =
     (Inr (PyDict [(''message'',
        PyStr ([CHR 0xF0, CHR 0x9F, CHR 0xAA, CHR 0x99]
               @ '' Token indexer server is up and running!''))]), s)"

text \<open>\<^verbatim>\<open>GET /balance/{address}\<close>: \<^verbatim>\<open>get_token_balance(address)\<close>.\<close>

definition get_token_balance :: "'s database \<Rightarrow> string \<Rightarrow> ('s, pyval) coro" where
  "get_token_balance db address s =
     (let futures = [retrieve_balance db address] in
      case gather futures s of
        (Inl e, s') \<Rightarrow> (Inl e, s')
      | (Inr result, s') \<Rightarrow>
          if truthy (PyList result)
          then (Inr (PyDict [(''result'', PyList result)]), s')
          else (Inr (PyDict [(''error'', PyStr ''wallet not found'')]), s'))"

text \<open>\<^verbatim>\<open>GET /top\<close>: \<^verbatim>\<open>get_top_holders()\<close>.\<close>

definition get_top_holders :: "'s database \<Rightarrow> ('s, pyval) coro" where
  "get_top_holders db s =
     (let futures = [retrieve_top_balances db] in
      case gather futures s of
        (Inl e, s') \<Rightarrow> (Inl e, s')
      | (Inr result, s') \<Rightarrow>
          if truthy (PyList result)
          then (Inr (PyDict [(''result'', PyList result)]), s')
          else (Inr (PyDict [(''error'', PyStr ''No holders found'')]), s'))"

text \<open>
  \<^verbatim>\<open>GET /weekly/{address}\<close>: \<^verbatim>\<open>get_holder_weekly_change(env_vars, address)\<close>. The
  body never reads \<^verbatim>\<open>env_vars\<close>; the parameter is kept, with whatever value the
  caller passes.
\<close>

definition get_holder_weekly_change ::
  "'s database \<Rightarrow> pyval \<Rightarrow> string \<Rightarrow> ('s, pyval) coro" where
  "get_holder_weekly_change db env_vars address s =
     (let futures = [retrieve_holder_weekly_change db address] in
      case gather futures s of
        (Inl e, s') \<Rightarrow> (Inl e, s')
      | (Inr result, s') \<Rightarrow>
          if truthy (PyList result)
          then (Inr (PyDict [(''result'', PyList result)]), s')
          else (Inr (PyDict [(''error'', PyStr ''wallet not found'')]), s'))"

section \<open>The handlers without \<^verbatim>\<open>gather\<close>\<close>

text \<open>
  The handlers as the specification proposes to write them: one plain \<^verbatim>\<open>await\<close> of
  the collaborator's call, the value it returns wrapped in a one-element list, and the
  same test and envelopes after that. They are compared with the handlers of the
  source below.
\<close>

definition get_token_balance_plain :: "'s database \<Rightarrow> string \<Rightarrow> ('s, pyval) coro" where
  "get_token_balance_plain db address s =
     (case retrieve_balance db address s of
        (Inl e, s') \<Rightarrow> (Inl e, s')
      | (Inr v, s') \<Rightarrow>
          (let result = [v] in
           if truthy (PyList result)
           then (Inr (PyDict [(''result'', PyList result)]), s')
           else (Inr (PyDict [(''error'', PyStr ''wallet not found'')]), s')))"

definition get_top_holders_plain :: "'s database \<Rightarrow> ('s, pyval) coro" where
  "get_top_holders_plain db s =
     (case retrieve_top_balances db s of
        (Inl e, s') \<Rightarrow> (Inl e, s')
      | (Inr v, s') \<Rightarrow>
          (let result = [v] in
           if truthy (PyList result)
           then (Inr (PyDict [(''result'', PyList result)]), s')
           else (Inr (PyDict [(''error'', PyStr ''No holders found'')]), s')))"

definition get_holder_weekly_change_plain ::
  "'s database \<Rightarrow> pyval \<Rightarrow> string \<Rightarrow> ('s, pyval) coro" where
  "get_holder_weekly_change_plain db env_vars address s =
     (case retrieve_holder_weekly_change db address s of
        (Inl e, s') \<Rightarrow> (Inl e, s')
      | (Inr v, s') \<Rightarrow>
          (let result = [v] in
           if truthy (PyList result)
           then (Inr (PyDict [(''result'', PyList result)]), s')
           else (Inr (PyDict [(''error'', PyStr ''wallet not found'')]), s')))"

section \<open>Example collaborators\<close>

text \<open>
  Three stand-ins for the database module, used to run the handlers on concrete
  requests. Their state is the number of queries answered so far.
\<close>

text \<open>A database that knows no wallet and no holder: null, the empty list, null.\<close>

definition db_absent :: "nat database" where
  "db_absent =
     \<lparr>retrieve_balance = (\<lambda>address s. (Inr PyNone, Suc s)),
      retrieve_top_balances = (\<lambda>s. (Inr (PyList []), Suc s)),
      retrieve_holder_weekly_change = (\<lambda>address s. (Inr PyNone, Suc s))\<rparr>"

text \<open>A database with data; its holder list is not sorted by balance.\<close>

definition db_known :: "nat database" where
  "db_known =
     \<lparr>retrieve_balance = (\<lambda>address s. (Inr (PyInt 1500), Suc s)),
      retrieve_top_balances =
        (\<lambda>s. (Inr (PyList
           [PyDict [(''address'', PyStr ''0xb2''), (''balance'', PyInt 20)],
            PyDict [(''address'', PyStr ''0xa1''), (''balance'', PyInt 900)],
            PyDict [(''address'', PyStr ''0xc3''), (''balance'', PyInt 75)]]), Suc s)),
      retrieve_holder_weekly_change = (\<lambda>address s. (Inr (PyInt (- 35)), Suc s))\<rparr>"

text \<open>A database whose every query raises.\<close>

definition db_failing :: "nat database" where
  "db_failing =
     \<lparr>retrieve_balance = (\<lambda>address s. (Inl (Raised ''ConnectionError''), s)),
      retrieve_top_balances = (\<lambda>s. (Inl (Raised ''TimeoutError''), s)),
      retrieve_holder_weekly_change = (\<lambda>address s. (Inl (Raised ''KeyError''), s))\<rparr>"

section \<open>Gathering one awaitable\<close>

lemma gather_single_returns:
  "c s = (Inr v, s') \<Longrightarrow> gather [c] s = (Inr [v], s')"
  by simp

lemma gather_single_raises:
  "c s = (Inl e, s') \<Longrightarrow> gather [c] s = (Inl e, s')"
  by simp

lemma truthy_singleton: "truthy (PyList [v])"
  by (simp add: truthy_def)

lemma gather_single:
  "gather [c] s = (case c s of (Inl e, s') \<Rightarrow> (Inl e, s') | (Inr v, s') \<Rightarrow> (Inr [v], s'))"
  by (simp split: prod.splits sum.splits)

section \<open>The status route\<close>

text \<open>
  C4: \<^verbatim>\<open>GET /\<close> returns the static payload with the key \<^verbatim>\<open>message\<close> and the
  status text of the source, in every state of the system; it leaves the state as it
  was and never raises.
\<close>

theorem get_notes_static:
  "get_notes s =
     (Inr (PyDict [(''message'',
        PyStr (CHR 0xF0 # CHR 0x9F # CHR 0xAA # CHR 0x99
               # '' Token indexer server is up and running!''))]), s)
   \<and> (\<forall>e t. get_notes s \<noteq> (Inl e, t))"
  by (simp add: get_notes_def)

section \<open>The balance route\<close>

text \<open>
  C1: whatever value \<^verbatim>\<open>retrieve_balance(address)\<close> returns, also a null or empty
  one, the gathered list has exactly that one element, so it is truthy, and the handler
  of \<^verbatim>\<open>GET /balance/{address}\<close> answers with the \<^verbatim>\<open>result\<close> envelope and with no
  \<^verbatim>\<open>error\<close> envelope.
\<close>

theorem get_token_balance_never_error:
  assumes "retrieve_balance db address s = (Inr v, s')"
  shows "gather [retrieve_balance db address] s = (Inr [v], s')
       \<and> truthy (PyList [v])
       \<and> (\<exists>r. get_token_balance db address s = (Inr (PyDict [(''result'', r)]), s'))
       \<and> (\<forall>m t. get_token_balance db address s \<noteq> (Inr (PyDict [(''error'', m)]), t))"
  using assms by (simp add: get_token_balance_def truthy_def)

theorem get_token_balance_never_error_witness:
  "retrieve_balance db_absent ''0xdead'' 0 = (Inr PyNone, 1)
   \<and> \<not> truthy PyNone
   \<and> gather [retrieve_balance db_absent ''0xdead''] 0 = (Inr [PyNone], 1)
   \<and> truthy (PyList [PyNone])
   \<and> get_token_balance db_absent ''0xdead'' 0
       \<noteq> (Inr (PyDict [(''error'', PyStr ''wallet not found'')]), 1)"
proof -
  have h: "retrieve_balance db_absent ''0xdead'' 0 = (Inr PyNone, 1)"
    by (simp add: db_absent_def)
  have n: "\<not> truthy PyNone"
    by (simp add: truthy_def)
  from get_token_balance_never_error [OF h] h n show ?thesis
    by blast
qed

text \<open>
  C2: for an address the collaborator reports as absent, \<^verbatim>\<open>GET /balance/{addr}\<close>
  should return \<^verbatim>\<open>{"error": "wallet not found"}\<close>. The handler does not: run
  against a database that returns \<^verbatim>\<open>None\<close> for the wallet, it answers
  \<^verbatim>\<open>{"result": [None]}\<close>, and its \<^verbatim>\<open>else\<close> branch is never reached.
\<close>

theorem get_token_balance_absent_wallet:
  "retrieve_balance db_absent ''0x00'' 7 = (Inr PyNone, 8)
   \<and> \<not> truthy PyNone
   \<and> get_token_balance db_absent ''0x00'' 7
       = (Inr (PyDict [(''result'', PyList [PyNone])]), 8)
   \<and> get_token_balance db_absent ''0x00'' 7
       \<noteq> (Inr (PyDict [(''error'', PyStr ''wallet not found'')]), 8)"
  by (simp add: get_token_balance_def db_absent_def truthy_def)

text \<open>
  C5: when \<^verbatim>\<open>retrieve_balance\<close> returns a balance, \<^verbatim>\<open>GET /balance/{addr}\<close>
  returns \<^verbatim>\<open>{"result": [balance]}\<close>: the value of the collaborator, unchanged, as
  the only element of the list.
\<close>

theorem get_token_balance_wraps_balance:
  assumes "retrieve_balance db address s = (Inr balance, s')"
  shows "get_token_balance db address s
           = (Inr (PyDict [(''result'', PyList [balance])]), s')"
  using assms by (simp add: get_token_balance_def truthy_def)

theorem get_token_balance_wraps_balance_witness:
  "retrieve_balance db_known ''0xa1'' 0 = (Inr (PyInt 1500), 1)
   \<and> get_token_balance db_known ''0xa1'' 0
       = (Inr (PyDict [(''result'', PyList [PyInt 1500])]), 1)"
proof -
  have h: "retrieve_balance db_known ''0xa1'' 0 = (Inr (PyInt 1500), 1)"
    by (simp add: db_known_def)
  from get_token_balance_wraps_balance [OF h] h show ?thesis
    by simp
qed

section \<open>The top holders route\<close>

text \<open>
  C6: the success body of \<^verbatim>\<open>GET /top\<close> holds the holder list that
  \<^verbatim>\<open>retrieve_top_balances()\<close> returned, as it is: same elements, same order,
  nothing sorted or changed.
\<close>

theorem get_top_holders_keeps_order:
  assumes "retrieve_top_balances db s = (Inr (PyList holders), s')"
  shows "get_top_holders db s
           = (Inr (PyDict [(''result'', PyList [PyList holders])]), s')"
  using assms by (simp add: get_top_holders_def truthy_def)

theorem get_top_holders_keeps_order_witness:
  "retrieve_top_balances db_known 4
     = (Inr (PyList
         [PyDict [(''address'', PyStr ''0xb2''), (''balance'', PyInt 20)],
          PyDict [(''address'', PyStr ''0xa1''), (''balance'', PyInt 900)],
          PyDict [(''address'', PyStr ''0xc3''), (''balance'', PyInt 75)]]), 5)
   \<and> get_top_holders db_known 4
     = (Inr (PyDict [(''result'', PyList [PyList
         [PyDict [(''address'', PyStr ''0xb2''), (''balance'', PyInt 20)],
          PyDict [(''address'', PyStr ''0xa1''), (''balance'', PyInt 900)],
          PyDict [(''address'', PyStr ''0xc3''), (''balance'', PyInt 75)]]])]), 5)"
proof -
  have h: "retrieve_top_balances db_known 4
     = (Inr (PyList
         [PyDict [(''address'', PyStr ''0xb2''), (''balance'', PyInt 20)],
          PyDict [(''address'', PyStr ''0xa1''), (''balance'', PyInt 900)],
          PyDict [(''address'', PyStr ''0xc3''), (''balance'', PyInt 75)]]), 5)"
    by (simp add: db_known_def)
  from get_top_holders_keeps_order [OF h] h show ?thesis
    by simp
qed

section \<open>The weekly change route\<close>

text \<open>
  C3: the response of \<^verbatim>\<open>GET /weekly/{address}\<close> does not depend on
  \<^verbatim>\<open>env_vars\<close>: with the same collaborator, address and state of the system, any
  two values of \<^verbatim>\<open>env_vars\<close> give the same outcome.
\<close>

theorem get_holder_weekly_change_ignores_env_vars:
  "get_holder_weekly_change db env_vars address s
     = get_holder_weekly_change db env_vars' address s"
  by (simp add: get_holder_weekly_change_def)

section \<open>Properties of all query handlers\<close>

text \<open>
  C7: each of the three query handlers behaves as the handler that awaits the one
  collaborator call directly and puts the returned value into a one-element list:
  same response, same exception and same state afterwards, for every collaborator,
  argument and state. Gathering a single awaitable adds nothing.
\<close>

theorem gather_of_one_is_plain_await:
  "get_token_balance db address s = get_token_balance_plain db address s
   \<and> get_top_holders db s = get_top_holders_plain db s
   \<and> get_holder_weekly_change db env_vars address s
       = get_holder_weekly_change_plain db env_vars address s"
proof -
  have b: "get_token_balance db address s = get_token_balance_plain db address s"
    unfolding get_token_balance_def get_token_balance_plain_def Let_def gather_single
    by (simp split: prod.splits sum.splits)
  have t: "get_top_holders db s = get_top_holders_plain db s"
    unfolding get_top_holders_def get_top_holders_plain_def Let_def gather_single
    by (simp split: prod.splits sum.splits)
  have w: "get_holder_weekly_change db env_vars address s
             = get_holder_weekly_change_plain db env_vars address s"
    unfolding get_holder_weekly_change_def get_holder_weekly_change_plain_def Let_def
      gather_single
    by (simp split: prod.splits sum.splits)
  from b t w show ?thesis by simp
qed

text \<open>
  C8: no handler catches an exception of its collaborator. When
  \<^verbatim>\<open>retrieve_balance\<close>, \<^verbatim>\<open>retrieve_top_balances\<close> or
  \<^verbatim>\<open>retrieve_holder_weekly_change\<close> raises, the handler raises the same exception,
  in the state the collaborator left, and returns no envelope.
\<close>

theorem collaborator_exception_propagates:
  "(retrieve_balance db a1 s1 = (Inl e1, t1)
      \<longrightarrow> get_token_balance db a1 s1 = (Inl e1, t1))
   \<and> (retrieve_top_balances db s2 = (Inl e2, t2)
      \<longrightarrow> get_top_holders db s2 = (Inl e2, t2))
   \<and> (retrieve_holder_weekly_change db a3 s3 = (Inl e3, t3)
      \<longrightarrow> get_holder_weekly_change db env_vars a3 s3 = (Inl e3, t3))"
  by (simp add: get_token_balance_def get_top_holders_def get_holder_weekly_change_def)

theorem collaborator_exception_propagates_witness:
  "retrieve_balance db_failing ''0xa1'' 0 = (Inl (Raised ''ConnectionError''), 0)
   \<and> get_token_balance db_failing ''0xa1'' 0 = (Inl (Raised ''ConnectionError''), 0)
   \<and> retrieve_top_balances db_failing 0 = (Inl (Raised ''TimeoutError''), 0)
   \<and> get_top_holders db_failing 0 = (Inl (Raised ''TimeoutError''), 0)
   \<and> retrieve_holder_weekly_change db_failing ''0xa1'' 0 = (Inl (Raised ''KeyError''), 0)
   \<and> get_holder_weekly_change db_failing (PyDict []) ''0xa1'' 0
       = (Inl (Raised ''KeyError''), 0)"
proof -
  have h1: "retrieve_balance db_failing ''0xa1'' 0 = (Inl (Raised ''ConnectionError''), 0)"
    by (simp add: db_failing_def)
  have h2: "retrieve_top_balances db_failing 0 = (Inl (Raised ''TimeoutError''), 0)"
    by (simp add: db_failing_def)
  have h3: "retrieve_holder_weekly_change db_failing ''0xa1'' 0 = (Inl (Raised ''KeyError''), 0)"
    by (simp add: db_failing_def)
  from collaborator_exception_propagates
         [of db_failing "''0xa1''" 0 "Raised ''ConnectionError''" 0
             0 "Raised ''TimeoutError''" 0
             "''0xa1''" 0 "Raised ''KeyError''" 0 "PyDict []"]
       h1 h2 h3
  show ?thesis by blast
qed

text \<open>
  C9: every response a handler returns normally is a dictionary with exactly one key:
  \<^verbatim>\<open>message\<close> for \<^verbatim>\<open>GET /\<close>, and \<^verbatim>\<open>result\<close> or \<^verbatim>\<open>error\<close> for the three
  query routes. No response has both keys or any other shape.
\<close>

theorem responses_have_one_key:
  "(get_notes (s0::'s) = (Inr r0, t0) \<longrightarrow> dict_keys r0 = Some [''message''])
   \<and> (get_token_balance (db::'s database) a1 s1 = (Inr r1, t1)
      \<longrightarrow> dict_keys r1 = Some [''result''] \<or> dict_keys r1 = Some [''error''])
   \<and> (get_top_holders db s2 = (Inr r2, t2)
      \<longrightarrow> dict_keys r2 = Some [''result''] \<or> dict_keys r2 = Some [''error''])
   \<and> (get_holder_weekly_change db env_vars a3 s3 = (Inr r3, t3)
      \<longrightarrow> dict_keys r3 = Some [''result''] \<or> dict_keys r3 = Some [''error''])"
proof -
  have n: "get_notes s0 = (Inr r0, t0) \<longrightarrow> dict_keys r0 = Some [''message'']"
    by (auto simp: get_notes_def dict_keys_def)
  have b: "get_token_balance db a1 s1 = (Inr r1, t1)
      \<longrightarrow> dict_keys r1 = Some [''result''] \<or> dict_keys r1 = Some [''error'']"
    unfolding get_token_balance_def Let_def gather_single
    by (auto simp: dict_keys_def split: prod.splits sum.splits if_splits)
  have t: "get_top_holders db s2 = (Inr r2, t2)
      \<longrightarrow> dict_keys r2 = Some [''result''] \<or> dict_keys r2 = Some [''error'']"
    unfolding get_top_holders_def Let_def gather_single
    by (auto simp: dict_keys_def split: prod.splits sum.splits if_splits)
  have w: "get_holder_weekly_change db env_vars a3 s3 = (Inr r3, t3)
      \<longrightarrow> dict_keys r3 = Some [''result''] \<or> dict_keys r3 = Some [''error'']"
    unfolding get_holder_weekly_change_def Let_def gather_single
    by (auto simp: dict_keys_def split: prod.splits sum.splits if_splits)
  from n b t w show ?thesis by blast
qed

theorem responses_have_one_key_witness:
  "get_token_balance db_known ''0xa1'' 2 = (Inr (PyDict [(''result'', PyList [PyInt 1500])]), 3)
   \<and> dict_keys (PyDict [(''result'', PyList [PyInt 1500])]) = Some [''result'']
   \<and> get_top_holders db_absent 2 = (Inr (PyDict [(''result'', PyList [PyList []])]), 3)
   \<and> dict_keys (PyDict [(''result'', PyList [PyList []])]) = Some [''result'']
   \<and> get_holder_weekly_change db_known PyNone ''0xa1'' 2
       = (Inr (PyDict [(''result'', PyList [PyInt (- 35)])]), 3)
   \<and> dict_keys (PyDict [(''result'', PyList [PyInt (- 35)])]) = Some [''result'']
   \<and> (\<exists>r. get_notes (2::nat) = (Inr r, 2) \<and> dict_keys r = Some [''message''])"
proof -
  have h0: "\<exists>r. get_notes (2::nat) = (Inr r, 2)"
    by (simp add: get_notes_def)
  have h1: "get_token_balance db_known ''0xa1'' 2
              = (Inr (PyDict [(''result'', PyList [PyInt 1500])]), 3)"
    by (simp add: get_token_balance_def db_known_def truthy_def)
  have h2: "get_top_holders db_absent 2 = (Inr (PyDict [(''result'', PyList [PyList []])]), 3)"
    by (simp add: get_top_holders_def db_absent_def truthy_def)
  have h3: "get_holder_weekly_change db_known PyNone ''0xa1'' 2
              = (Inr (PyDict [(''result'', PyList [PyInt (- 35)])]), 3)"
    by (simp add: get_holder_weekly_change_def db_known_def truthy_def)
  from h0 obtain r where r: "get_notes (2::nat) = (Inr r, 2)" ..
  from responses_have_one_key
         [of 2 r 2 db_known "''0xa1''" 2 "PyDict [(''result'', PyList [PyInt 1500])]" 3
             2 "PyDict [(''result'', PyList [PyList []])]" 3
             PyNone "''0xa1''" 2 "PyDict [(''result'', PyList [PyInt (- 35)])]" 3]
       r
  have k0: "dict_keys r = Some [''message'']"
    by blast
  have k: "dict_keys (PyDict [(''result'', PyList [PyInt 1500])]) = Some [''result'']"
          "dict_keys (PyDict [(''result'', PyList [PyList []])]) = Some [''result'']"
          "dict_keys (PyDict [(''result'', PyList [PyInt (- 35)])]) = Some [''result'']"
    by (simp_all add: dict_keys_def)
  from r k0 h1 h2 h3 k show ?thesis by blast
qed

text \<open>
  C10: \<^verbatim>\<open>GET /top\<close> and \<^verbatim>\<open>GET /weekly/{address}\<close> never return their error
  envelopes either. Whatever the collaborator returns, also an empty holder list or a
  null change, the gathered list has one element, is truthy, and the handler answers
  with the \<^verbatim>\<open>result\<close> envelope.
\<close>

theorem top_and_weekly_never_error:
  "(retrieve_top_balances db s2 = (Inr v2, t2)
      \<longrightarrow> truthy (PyList [v2])
        \<and> get_top_holders db s2 = (Inr (PyDict [(''result'', PyList [v2])]), t2)
        \<and> (\<forall>m t. get_top_holders db s2 \<noteq> (Inr (PyDict [(''error'', m)]), t)))
   \<and> (retrieve_holder_weekly_change db a3 s3 = (Inr v3, t3)
      \<longrightarrow> truthy (PyList [v3])
        \<and> get_holder_weekly_change db env_vars a3 s3
            = (Inr (PyDict [(''result'', PyList [v3])]), t3)
        \<and> (\<forall>m t. get_holder_weekly_change db env_vars a3 s3
                    \<noteq> (Inr (PyDict [(''error'', m)]), t)))"
  by (simp add: get_top_holders_def get_holder_weekly_change_def truthy_def)

theorem top_and_weekly_never_error_witness:
  "retrieve_top_balances db_absent 0 = (Inr (PyList []), 1)
   \<and> \<not> truthy (PyList [])
   \<and> get_top_holders db_absent 0 = (Inr (PyDict [(''result'', PyList [PyList []])]), 1)
   \<and> get_top_holders db_absent 0
       \<noteq> (Inr (PyDict [(''error'', PyStr ''No holders found'')]), 1)
   \<and> retrieve_holder_weekly_change db_absent ''0xdead'' 0 = (Inr PyNone, 1)
   \<and> \<not> truthy PyNone
   \<and> get_holder_weekly_change db_absent (PyDict []) ''0xdead'' 0
       = (Inr (PyDict [(''result'', PyList [PyNone])]), 1)
   \<and> get_holder_weekly_change db_absent (PyDict []) ''0xdead'' 0
       \<noteq> (Inr (PyDict [(''error'', PyStr ''wallet not found'')]), 1)"
proof -
  have h2: "retrieve_top_balances db_absent 0 = (Inr (PyList []), 1)"
    by (simp add: db_absent_def)
  have h3: "retrieve_holder_weekly_change db_absent ''0xdead'' 0 = (Inr PyNone, 1)"
    by (simp add: db_absent_def)
  have n: "\<not> truthy (PyList [])" "\<not> truthy PyNone"
    by (simp_all add: truthy_def)
  from top_and_weekly_never_error
         [of db_absent 0 "PyList []" 1 "''0xdead''" 0 PyNone 1 "PyDict []"]
       h2 h3 n
  show ?thesis by blast
qed

end
